theory Spec2Isabelle
  imports Main "HOL-Library.AList"
begin

section \<open>Strings as the action sees them\<close>

text \<open>
  A JavaScript string is modelled as a \<^typ>\<open>string\<close>. The action only ever compares
  lower-cased inputs with the ASCII words of its own tables (\<open>negligible\<close>, \<open>low\<close>,
  \<open>medium\<close>, \<open>high\<close>, \<open>critical\<close>, \<open>sarif\<close>, \<open>json\<close>, \<open>table\<close>, \<open>true\<close>), and prints a
  lower-cased input only after such a comparison has succeeded. \<open>String.prototype.toLowerCase\<close>
  is therefore modelled on the letters \<open>A\<close> to \<open>Z\<close>; every other character is left alone
  (no character outside ASCII lower-cases to a letter of one of those words).
\<close>

definition upperLetters :: string where
  "upperLetters = ''ABCDEFGHIJKLMNOPQRSTUVWXYZ''"

definition lowerLetters :: string where
  "lowerLetters = ''abcdefghijklmnopqrstuvwxyz''"

definition toLowerCase_char :: "char \<Rightarrow> char" where
  "toLowerCase_char c =
     (case map_of (zip upperLetters lowerLetters) c of Some l \<Rightarrow> l | None \<Rightarrow> c)"

definition toLowerCase :: "string \<Rightarrow> string" where
  "toLowerCase s = map toLowerCase_char s"

text \<open>Truthiness of a string: every string but the empty one.\<close>

definition truthy :: "string \<Rightarrow> bool" where
  "truthy s = (s \<noteq> [])"

text \<open>\<open>a || b\<close> on strings.\<close>

definition orElse :: "string \<Rightarrow> string \<Rightarrow> string" where
  "orElse a b = (if truthy a then a else b)"

text \<open>\<open>Array.prototype.join\<close>.\<close>

fun join :: "string \<Rightarrow> string list \<Rightarrow> string" where
  "join sep [] = []"
| "join sep [x] = x"
| "join sep (x # y # ys) = x @ sep @ join sep (y # ys)"

text \<open>A boolean concatenated to a string.\<close>

definition showBool :: "bool \<Rightarrow> string" where
  "showBool b = (if b then ''true'' else ''false'')"

section \<open>Errors, effects and the outside world\<close>

text \<open>Every exception of the action is a plain \<open>Error\<close> carrying its message.\<close>

datatype error = Error string

type_synonym env = "(string \<times> string) list"

text \<open>
  What a child process hands to the listeners of \<open>exec.exec\<close>, in the order of arrival,
  and the exit code it ends with.
\<close>

datatype chunk = Stdout string | Stderr string | DebugMsg string

record procResult =
  exitCode :: int
  chunks :: "chunk list"

text \<open>
  The observable effects, in the order in which they happen: the calls to
  \<open>@actions/core\<close>, \<open>@actions/tool-cache\<close>, \<open>@actions/exec\<close> and \<open>fs\<close>.
\<close>

datatype event =
    Debug string
  | Info string
  | Warning string
  | SetFailed string
  | SetOutput string string
  | AddPath string
  | StartGroup string
  | EndGroup
  | DownloadTool string
  | CacheFile string string string string
  | Exec string "string list" "env option"
  | WriteFile string string

text \<open>
  \<open>Exec\<close> and \<open>DownloadTool\<close> record the call, whatever becomes of it; \<open>WriteFile\<close>
  records a write that \<open>fs.writeFileSync\<close> has completed.
\<close>

text \<open>
  The collaborators the action calls, as parameters: the inputs of the workflow
  (\<open>core.getInput\<close>, the empty string for an input that is not set), the debug switch,
  the environment of the process, the constant of \<open>./GovulnersVersion\<close>, the clock, the tool
  cache, the process runner (command, arguments, environment, \<open>ignoreReturnCode\<close>) and the
  file system. A collaborator that can throw returns an \<^typ>\<open>error\<close>.
\<close>

record world =
  getInput :: "string \<Rightarrow> string"
  isDebug :: bool
  processEnv :: env
  GOVULNERS_VERSION :: string
  timeString :: string
  cacheFind :: "string \<Rightarrow> string \<Rightarrow> string"
  downloadTool :: "string \<Rightarrow> error + string"
  cacheFile :: "string \<Rightarrow> string \<Rightarrow> string \<Rightarrow> string \<Rightarrow> error + string"
  exec :: "string \<Rightarrow> string list \<Rightarrow> env option \<Rightarrow> bool \<Rightarrow> error + procResult"
  writeFileSync :: "string \<Rightarrow> string \<Rightarrow> error option"

text \<open>
  A computation yields the effects it had and then either the error it threw or its value.
\<close>

type_synonym 'a result = "event list \<times> (error + 'a)"

definition ret :: "'a \<Rightarrow> 'a result" where
  "ret x = ([], Inr x)"

definition throw :: "error \<Rightarrow> 'a result" where
  "throw e = ([], Inl e)"

definition emit :: "event list \<Rightarrow> unit result" where
  "emit es = (es, Inr ())"

definition await :: "error + 'a \<Rightarrow> 'a result" where
  "await r = ([], r)"

definition andThen :: "'a result \<Rightarrow> ('a \<Rightarrow> 'b result) \<Rightarrow> 'b result" where
  "andThen m f =
     (case snd m of
        Inl e \<Rightarrow> (fst m, Inl e)
      | Inr x \<Rightarrow> (fst m @ fst (f x), snd (f x)))"

section \<open>Tool provisioning\<close>

definition govulnersBinary :: string where
  "govulnersBinary = ''govulners''"

definition govulnersVersion :: "world \<Rightarrow> string" where
  "govulnersVersion w = orElse (getInput w ''govulners-version'') (GOVULNERS_VERSION w)"

definition installUrl :: string where
  "installUrl = ''https://raw.githubusercontent.com/nextlinux/govulners/main/install.sh''"

definition downloadGovulners :: "world \<Rightarrow> string \<Rightarrow> string result" where
  "downloadGovulners w version =
     andThen (emit [Debug (''Installing '' @ version), DownloadTool installUrl]) (\<lambda>_.
     andThen (await (downloadTool w installUrl)) (\<lambda>installPath.
     andThen (emit [Exec (''chmod +x '' @ installPath) [] None]) (\<lambda>_.
     andThen (await (exec w (''chmod +x '' @ installPath) [] None False)) (\<lambda>_.
     (let cmd = installPath @ '' -b '' @ installPath @ ''_govulners '' @ version in
     andThen (emit [Exec cmd [] None]) (\<lambda>_.
     andThen (await (exec w cmd [] None False)) (\<lambda>_.
     (let govulnersPath = installPath @ ''_govulners/govulners'' in
     andThen (emit [CacheFile govulnersPath ''govulners'' ''govulners'' version]) (\<lambda>_.
     await (cacheFile w govulnersPath ''govulners'' ''govulners'' version))))))))))"

definition installGovulners :: "world \<Rightarrow> string \<Rightarrow> string result" where
  "installGovulners w version =
     andThen
       (let govulnersPath = cacheFind w govulnersBinary version in
        if \<not> truthy govulnersPath then downloadGovulners w version else ret govulnersPath)
       (\<lambda>govulnersPath.
     andThen (emit [AddPath govulnersPath]) (\<lambda>_.
     ret (govulnersPath @ ''/'' @ govulnersBinary)))"

section \<open>Source resolution\<close>

fun multipleDefinedLoop :: "bool \<Rightarrow> string list \<Rightarrow> bool" where
  "multipleDefinedLoop defined [] = False"
| "multipleDefinedLoop defined (a # args) =
     (if defined \<and> truthy a then True
      else multipleDefinedLoop (if truthy a then True else defined) args)"

definition multipleDefined :: "string list \<Rightarrow> bool" where
  "multipleDefined args = multipleDefinedLoop False args"

definition sourceInput :: "world \<Rightarrow> error + string" where
  "sourceInput w =
     (let image = getInput w ''image'';
          path = getInput w ''path'';
          sbom = getInput w ''sbom''
      in if multipleDefined [image, path, sbom]
         then Inl (Error ''The following options are mutually exclusive: image, path, sbom'')
         else if truthy image then Inr image
         else if truthy sbom then Inr (''sbom:'' @ sbom)
         else Inr (''dir:'' @ (if \<not> truthy path then ''.'' else path)))"

section \<open>The scan\<close>

record scanParams =
  source :: string
  failBuild :: string
  severityCutoff :: string
  onlyFixed :: string
  outputFormat :: string
  addCpesIfNone :: string

definition SEVERITY_LIST :: "string list" where
  "SEVERITY_LIST = [''negligible'', ''low'', ''medium'', ''high'', ''critical'']"

definition FORMAT_LIST :: "string list" where
  "FORMAT_LIST = [''sarif'', ''json'', ''table'']"

text \<open>
  The environment of the child process: the environment of the action, the switch that
  turns the tool's update check off, and the registry credentials as soon as one of them
  is set.
\<close>

definition scanEnv :: "world \<Rightarrow> env" where
  "scanEnv w =
     (let env = AList.update ''GOVULNERS_CHECK_FOR_APP_UPDATE'' ''false'' (processEnv w);
          registryUser = getInput w ''registry-username'';
          registryPass = getInput w ''registry-password''
      in if truthy registryUser \<or> truthy registryPass
         then AList.update ''GOVULNERS_REGISTRY_AUTH_PASSWORD'' registryPass
                (AList.update ''GOVULNERS_REGISTRY_AUTH_USERNAME'' registryUser env)
         else env)"

definition registryWarning :: "world \<Rightarrow> event list" where
  "registryWarning w =
     (let registryUser = getInput w ''registry-username'';
          registryPass = getInput w ''registry-password''
      in if truthy registryUser \<or> truthy registryPass
         then (if \<not> truthy registryUser \<or> \<not> truthy registryPass
               then [Warning ''WARNING: registry-username and registry-password must be specified together'']
               else [])
         else [])"

text \<open>
  The argument list, in the order of the \<open>push\<close> calls. The source interleaves them with
  the validation and the installation, neither of which reads the list.
\<close>

definition scanArgs :: "bool \<Rightarrow> scanParams \<Rightarrow> string list" where
  "scanArgs debug p =
     (if debug then [''-vv''] else [])
     @ [''-o'', outputFormat p]
     @ (if severityCutoff p \<noteq> '''' then [''--fail-on'', toLowerCase (severityCutoff p)] else [])
     @ (if toLowerCase (onlyFixed p) = ''true'' then [''--only-fixed''] else [])
     @ (if toLowerCase (addCpesIfNone p) = ''true'' then [''--add-cpes-if-none''] else [])
     @ [source p]"

definition severityError :: "string \<Rightarrow> error" where
  "severityError severity =
     Error (''Invalid severity-cutoff value is set to '' @ severity
            @ '' - please ensure you are choosing either negligible, low, medium, high, or critical'')"

definition formatError :: "string \<Rightarrow> error" where
  "formatError format =
     Error (''Invalid output-format value is set to '' @ format
            @ '' - please ensure you are choosing either json or sarif'')"

text \<open>
  The two membership tests. The source also tests that the lower-cased value is of type
  string, which holds of every string.
\<close>

definition validateInputs :: "scanParams \<Rightarrow> unit result" where
  "validateInputs p =
     (if \<not> list_ex (\<lambda>item. item = toLowerCase (severityCutoff p)) SEVERITY_LIST
      then throw (severityError (severityCutoff p))
      else if \<not> list_ex (\<lambda>item. item = toLowerCase (outputFormat p)) FORMAT_LIST
      then throw (formatError (outputFormat p))
      else ret ())"

text \<open>
  The listeners of the child process: standard output is accumulated, standard error goes
  to \<open>core.info\<close>, the runner's own trace to \<open>core.debug\<close>.
\<close>

fun listeners :: "chunk list \<Rightarrow> string \<Rightarrow> event list \<times> string" where
  "listeners [] cmdOutput = ([], cmdOutput)"
| "listeners (Stdout buffer # cs) cmdOutput = listeners cs (cmdOutput @ buffer)"
| "listeners (Stderr buffer # cs) cmdOutput =
     (Info buffer # fst (listeners cs cmdOutput), snd (listeners cs cmdOutput))"
| "listeners (DebugMsg message # cs) cmdOutput =
     (Debug message # fst (listeners cs cmdOutput), snd (listeners cs cmdOutput))"

text \<open>
  \<open>core.group\<close> around the child process: the group is closed whether or not the runner
  throws. The result is the exit code and the captured standard output.
\<close>

definition execScan :: "world \<Rightarrow> string list \<Rightarrow> env \<Rightarrow> (int \<times> string) result" where
  "execScan w cmdArgs env =
     (let cmd = govulnersBinary in
      andThen (emit [StartGroup (cmd @ '' output...''),
                     Info (''Executing: '' @ cmd @ '' '' @ join '' '' cmdArgs),
                     Exec cmd cmdArgs (Some env)]) (\<lambda>_.
      case exec w cmd cmdArgs (Some env) True of
        Inl e \<Rightarrow> ([EndGroup], Inl e)
      | Inr r \<Rightarrow> (fst (listeners (chunks r) '''') @ [EndGroup],
                  Inr (exitCode r, snd (listeners (chunks r) '''')))))"

text \<open>The \<open>switch\<close> on the output format: the report file, or the report in the log.\<close>

definition writeReport :: "world \<Rightarrow> string \<Rightarrow> string \<Rightarrow> string \<Rightarrow> (string \<times> string) list result" where
  "writeReport w key file cmdOutput =
     (case writeFileSync w file cmdOutput of
        Some e \<Rightarrow> throw e
      | None \<Rightarrow> andThen (emit [WriteFile file cmdOutput]) (\<lambda>_. ret [(key, file)]))"

definition persistReport :: "world \<Rightarrow> string \<Rightarrow> string \<Rightarrow> (string \<times> string) list result" where
  "persistReport w format cmdOutput =
     (if format = ''sarif'' then writeReport w ''sarif'' ''./results.sarif'' cmdOutput
      else if format = ''json'' then writeReport w ''json'' ''./results.json'' cmdOutput
      else andThen (emit [Info cmdOutput]) (\<lambda>_. ret []))"

definition severityMessage :: "string \<Rightarrow> string" where
  "severityMessage severity =
     ''Failed minimum severity level. Found vulnerabilities with level '' @ [CHR 0x27]
     @ severity @ [CHR 0x27] @ '' or higher''"

text \<open>What a non-zero exit status is reported as.\<close>

definition exitCodePolicy :: "int \<Rightarrow> string \<Rightarrow> bool \<Rightarrow> event list" where
  "exitCodePolicy code severity failBuildB =
     (if code > 0 then
        (if \<not> truthy severity then [Warning ''govulners had a non-zero exit status when running'']
         else if failBuildB then [SetFailed (severityMessage severity)]
         else [Warning (severityMessage severity)])
      else [])"

definition runScan :: "world \<Rightarrow> scanParams \<Rightarrow> (string \<times> string) list result" where
  "runScan w p =
     (let env = scanEnv w;
          failBuildB = (toLowerCase (failBuild p) = ''true'');
          onlyFixedB = (toLowerCase (onlyFixed p) = ''true'');
          addCpesIfNoneB = (toLowerCase (addCpesIfNone p) = ''true'')
      in
      andThen (emit (registryWarning w)) (\<lambda>_.
      andThen (validateInputs p) (\<lambda>_.
      andThen (emit [Debug (''Installing govulners version '' @ govulnersVersion w)]) (\<lambda>_.
      andThen (installGovulners w (govulnersVersion w)) (\<lambda>_.
      andThen (emit [Debug (''Source: '' @ source p),
                     Debug (''Fail Build: '' @ showBool failBuildB),
                     Debug (''Severity Cutoff: '' @ severityCutoff p),
                     Debug (''Only Fixed: '' @ showBool onlyFixedB),
                     Debug (''Add Missing CPEs: '' @ showBool addCpesIfNoneB),
                     Debug (''Output Format: '' @ outputFormat p),
                     Debug ''Creating options for GOVULNERS analyzer'']) (\<lambda>_.
      andThen (execScan w (scanArgs (isDebug w) p) env) (\<lambda>(code, cmdOutput).
      andThen (emit (if isDebug w then [Debug ''Govulners output:'', Debug cmdOutput] else [])) (\<lambda>_.
      andThen (persistReport w (outputFormat p) cmdOutput) (\<lambda>out.
      andThen (emit (exitCodePolicy code (severityCutoff p) failBuildB)) (\<lambda>_.
      ret out))))))))))"

section \<open>The entry point\<close>

definition setOutputs :: "(string \<times> string) list \<Rightarrow> event list" where
  "setOutputs out = map (\<lambda>(key, v). SetOutput key v) out"

definition run :: "world \<Rightarrow> event list" where
  "run w =
     Debug (timeString w) #
     (case
        andThen (await (sourceInput w)) (\<lambda>src.
        andThen (runScan w
                   \<lparr> source = src,
                     failBuild = orElse (getInput w ''fail-build'') ''true'',
                     severityCutoff = orElse (getInput w ''severity-cutoff'') ''medium'',
                     onlyFixed = orElse (getInput w ''only-fixed'') ''false'',
                     outputFormat = orElse (getInput w ''output-format'') ''sarif'',
                     addCpesIfNone = orElse (getInput w ''add-cpes-if-none'') ''false'' \<rparr>) (\<lambda>out.
        emit (setOutputs out)))
      of (es, Inl (Error message)) \<Rightarrow> es @ [SetFailed message]
       | (es, Inr _) \<Rightarrow> es)"

section \<open>Observations on a trace\<close>

definition isWarning :: "event \<Rightarrow> bool" where
  "isWarning e = (case e of Warning _ \<Rightarrow> True | _ \<Rightarrow> False)"

definition isSetFailed :: "event \<Rightarrow> bool" where
  "isSetFailed e = (case e of SetFailed _ \<Rightarrow> True | _ \<Rightarrow> False)"

definition isWriteFile :: "event \<Rightarrow> bool" where
  "isWriteFile e = (case e of WriteFile _ _ \<Rightarrow> True | _ \<Rightarrow> False)"

definition isScanExec :: "event \<Rightarrow> bool" where
  "isScanExec e = (case e of Exec _ _ (Some _) \<Rightarrow> True | _ \<Rightarrow> False)"

text \<open>
  An event is quiet when it is neither a warning, nor a failure signal, nor a completed
  write, nor a child process started with an environment of its own.
\<close>

definition quiet :: "event \<Rightarrow> bool" where
  "quiet e = (\<not> (isWarning e \<or> isSetFailed e \<or> isWriteFile e \<or> isScanExec e))"

text \<open>The standard output of a child process, as one string.\<close>

definition stdoutOf :: "chunk list \<Rightarrow> string" where
  "stdoutOf cs = concat (map (\<lambda>c. case c of Stdout buffer \<Rightarrow> buffer | _ \<Rightarrow> []) cs)"


text \<open>
  A string is a case variant of a lower-case word when it is the word with some of its
  letters in upper case.
\<close>

definition caseVariant :: "string \<Rightarrow> string \<Rightarrow> bool" where
  "caseVariant s word =
     list_all2 (\<lambda>c l. c = l \<or> map_of (zip lowerLetters upperLetters) l = Some c) s word"

section \<open>A concrete run\<close>

text \<open>
  A runner with the given inputs on which the tool is already in the cache, the child process
  prints a report and a diagnostic line and exits with the given code, and every write
  succeeds; and a request for the working directory with the given \<open>fail-build\<close>,
  \<open>severity-cutoff\<close> and \<open>output-format\<close>.
\<close>

definition cachedWorld :: "int \<Rightarrow> (string \<times> string) list \<Rightarrow> world" where
  "cachedWorld code inputs =
     \<lparr> getInput = (\<lambda>name. case map_of inputs name of Some v \<Rightarrow> v | None \<Rightarrow> ''''),
       isDebug = False,
       processEnv = [(''HOME'', ''/home/runner'')],
       GOVULNERS_VERSION = ''v0.1.0'',
       timeString = ''10:02:00 GMT+0000'',
       cacheFind = (\<lambda>_ _. ''/opt/hostedtoolcache/govulners/0.1.0/x64''),
       downloadTool = (\<lambda>_. Inl (Error ''no network'')),
       cacheFile = (\<lambda>_ _ _ _. Inl (Error ''no network'')),
       exec = (\<lambda>_ _ _ _. Inr \<lparr> exitCode = code,
                                   chunks = [Stdout ''{x:'', Stderr ''1 match'', Stdout ''1}''] \<rparr>),
       writeFileSync = (\<lambda>_ _. None) \<rparr>"

definition scanRequest :: "string \<Rightarrow> string \<Rightarrow> string \<Rightarrow> scanParams" where
  "scanRequest failBuildInput severity format =
     \<lparr> source = ''dir:.'',
       failBuild = failBuildInput,
       severityCutoff = severity,
       onlyFixed = ''false'',
       outputFormat = format,
       addCpesIfNone = ''false'' \<rparr>"

section \<open>Sequencing and traces\<close>

lemma andThen_Inl [simp]: "andThen (es, Inl e) f = (es, Inl e)"
  by (simp add: andThen_def)

lemma andThen_Inr [simp]: "andThen (es, Inr x) f = (es @ fst (f x), snd (f x))"
  by (simp add: andThen_def)

lemma andThen_emit [simp]: "andThen (emit es) f = (es @ fst (f ()), snd (f ()))"
  by (simp add: emit_def)

lemma andThen_fails: "snd m = Inl e \<Longrightarrow> andThen m f = (fst m, Inl e)"
  by (simp add: andThen_def)

lemma quiet_filters:
  assumes "list_all quiet es"
  shows "filter isWarning es = []" and "filter isSetFailed es = []"
    and "filter isWriteFile es = []" and "filter isScanExec es = []"
  using assms by (induction es) (auto simp: quiet_def)


lemma quiet_downloadGovulners: "list_all quiet (fst (downloadGovulners w version))"
  by (simp add: downloadGovulners_def Let_def andThen_def emit_def await_def quiet_def
      isWarning_def isSetFailed_def isWriteFile_def isScanExec_def split: sum.splits)

lemma quiet_installGovulners: "list_all quiet (fst (installGovulners w version))"
  using quiet_downloadGovulners [of w version]
  by (simp add: installGovulners_def Let_def andThen_def emit_def ret_def quiet_def
      isWarning_def isSetFailed_def isWriteFile_def isScanExec_def split: sum.splits)

lemma quiet_listeners: "list_all quiet (fst (listeners cs acc))"
  by (induction cs acc rule: listeners.induct)
     (simp_all add: quiet_def isWarning_def isSetFailed_def isWriteFile_def isScanExec_def)

lemma listeners_stdout: "snd (listeners cs acc) = acc @ stdoutOf cs"
  by (induction cs acc rule: listeners.induct) (simp_all add: stdoutOf_def)

section \<open>The shapes of a scan\<close>

text \<open>
  A scan stops at the validation, at the installation or at the child process, or it reaches
  the report; in each case the trace is the registry warning, quiet events, and from the
  child process on what the report and the exit status add.
\<close>

lemma validateInputs_cases:
  "validateInputs p = ret ()
   \<or> validateInputs p = throw (severityError (severityCutoff p))
   \<or> validateInputs p = throw (formatError (outputFormat p))"
  by (simp add: validateInputs_def)

lemma runScan_invalid:
  assumes "validateInputs p = throw e"
  shows "runScan w p = (registryWarning w, Inl e)"
  using assms by (simp add: runScan_def Let_def throw_def)

lemma runScan_install_fails:
  assumes "validateInputs p = ret ()"
    and "snd (installGovulners w (govulnersVersion w)) = Inl e"
  shows "\<exists>pre. list_all quiet pre \<and> runScan w p = (registryWarning w @ pre, Inl e)"
proof -
  let ?pre = "Debug (''Installing govulners version '' @ govulnersVersion w)
              # fst (installGovulners w (govulnersVersion w))"
  have "list_all quiet ?pre"
    using quiet_installGovulners [of w "govulnersVersion w"]
    by (simp add: quiet_def isWarning_def isSetFailed_def isWriteFile_def isScanExec_def)
  moreover have "runScan w p = (registryWarning w @ ?pre, Inl e)"
    using assms by (simp add: runScan_def Let_def ret_def andThen_fails)
  ultimately show ?thesis by blast
qed

lemma quiet_scan_prelude:
  assumes "list_all quiet ies"
  shows "list_all quiet
           (Debug a # ies @ [Debug b1, Debug b2, Debug b3, Debug b4, Debug b5, Debug b6, Debug b7,
                             StartGroup g, Info i])"
  using assms by (simp add: quiet_def isWarning_def isSetFailed_def isWriteFile_def isScanExec_def)

lemma quiet_scan_epilogue:
  assumes "list_all quiet les"
  shows "list_all quiet (les @ EndGroup # (if d then [Debug a, Debug b] else []))"
  using assms by (simp add: quiet_def isWarning_def isSetFailed_def isWriteFile_def isScanExec_def)

lemma runScan_exec_fails:
  assumes "validateInputs p = ret ()"
    and "snd (installGovulners w (govulnersVersion w)) = Inr path"
    and "exec w govulnersBinary (scanArgs (isDebug w) p) (Some (scanEnv w)) True = Inl e"
  shows "\<exists>pre post. list_all quiet pre \<and> list_all quiet post
           \<and> runScan w p =
               (registryWarning w @ pre
                  @ Exec govulnersBinary (scanArgs (isDebug w) p) (Some (scanEnv w)) # post,
                Inl e)"
proof -
  obtain ies where inst: "installGovulners w (govulnersVersion w) = (ies, Inr path)"
    using assms(2) by (cases "installGovulners w (govulnersVersion w)") simp
  have q: "list_all quiet ies"
    using quiet_installGovulners [of w "govulnersVersion w"] inst by simp
  have run: "runScan w p =
      (registryWarning w
         @ (Debug (''Installing govulners version '' @ govulnersVersion w) # ies
            @ [Debug (''Source: '' @ source p),
               Debug (''Fail Build: '' @ showBool (toLowerCase (failBuild p) = ''true'')),
               Debug (''Severity Cutoff: '' @ severityCutoff p),
               Debug (''Only Fixed: '' @ showBool (toLowerCase (onlyFixed p) = ''true'')),
               Debug (''Add Missing CPEs: '' @ showBool (toLowerCase (addCpesIfNone p) = ''true'')),
               Debug (''Output Format: '' @ outputFormat p),
               Debug ''Creating options for GOVULNERS analyzer'',
               StartGroup (govulnersBinary @ '' output...''),
               Info (''Executing: '' @ govulnersBinary @ '' ''
                     @ join '' '' (scanArgs (isDebug w) p))])
         @ Exec govulnersBinary (scanArgs (isDebug w) p) (Some (scanEnv w)) # [EndGroup], Inl e)"
    using assms(1,3) inst by (simp add: runScan_def execScan_def Let_def ret_def)
  have "list_all quiet [EndGroup]"
    by (simp add: quiet_def isWarning_def isSetFailed_def isWriteFile_def isScanExec_def)
  with run quiet_scan_prelude [OF q] show ?thesis by blast
qed

lemma runScan_reached:
  assumes "validateInputs p = ret ()"
    and "snd (installGovulners w (govulnersVersion w)) = Inr path"
    and "exec w govulnersBinary (scanArgs (isDebug w) p) (Some (scanEnv w)) True = Inr r"
  shows "\<exists>pre post. list_all quiet pre \<and> list_all quiet post
           \<and> runScan w p =
               (registryWarning w @ pre
                  @ Exec govulnersBinary (scanArgs (isDebug w) p) (Some (scanEnv w)) # post
                  @ fst (persistReport w (outputFormat p) (stdoutOf (chunks r)))
                  @ (case snd (persistReport w (outputFormat p) (stdoutOf (chunks r))) of
                       Inl _ \<Rightarrow> []
                     | Inr _ \<Rightarrow> exitCodePolicy (exitCode r) (severityCutoff p)
                                 (toLowerCase (failBuild p) = ''true'')),
                snd (persistReport w (outputFormat p) (stdoutOf (chunks r))))"
proof -
  obtain ies where inst: "installGovulners w (govulnersVersion w) = (ies, Inr path)"
    using assms(2) by (cases "installGovulners w (govulnersVersion w)") simp
  have q: "list_all quiet ies"
    using quiet_installGovulners [of w "govulnersVersion w"] inst by simp
  obtain pes pr where pers: "persistReport w (outputFormat p) (stdoutOf (chunks r)) = (pes, pr)"
    by (cases "persistReport w (outputFormat p) (stdoutOf (chunks r))")
  have run: "runScan w p =
      (registryWarning w
         @ (Debug (''Installing govulners version '' @ govulnersVersion w) # ies
            @ [Debug (''Source: '' @ source p),
               Debug (''Fail Build: '' @ showBool (toLowerCase (failBuild p) = ''true'')),
               Debug (''Severity Cutoff: '' @ severityCutoff p),
               Debug (''Only Fixed: '' @ showBool (toLowerCase (onlyFixed p) = ''true'')),
               Debug (''Add Missing CPEs: '' @ showBool (toLowerCase (addCpesIfNone p) = ''true'')),
               Debug (''Output Format: '' @ outputFormat p),
               Debug ''Creating options for GOVULNERS analyzer'',
               StartGroup (govulnersBinary @ '' output...''),
               Info (''Executing: '' @ govulnersBinary @ '' ''
                     @ join '' '' (scanArgs (isDebug w) p))])
         @ Exec govulnersBinary (scanArgs (isDebug w) p) (Some (scanEnv w))
         # (fst (listeners (chunks r) []) @ EndGroup
            # (if isDebug w then [Debug ''Govulners output:'', Debug (stdoutOf (chunks r))]
               else []))
         @ pes
         @ (case pr of
              Inl _ \<Rightarrow> []
            | Inr _ \<Rightarrow> exitCodePolicy (exitCode r) (severityCutoff p)
                        (toLowerCase (failBuild p) = ''true'')),
       pr)"
    using assms(1,3) inst pers
    by (cases pr) (simp_all add: runScan_def execScan_def Let_def ret_def listeners_stdout)
  show ?thesis
    unfolding pers fst_conv snd_conv
    using run quiet_scan_prelude [OF q] quiet_scan_epilogue [OF quiet_listeners] by blast
qed

lemmas model_defs =
  runScan_def run_def sourceInput_def multipleDefined_def setOutputs_def
  cachedWorld_def scanRequest_def Let_def andThen_def emit_def ret_def throw_def await_def
  validateInputs_def severityError_def formatError_def registryWarning_def scanEnv_def scanArgs_def
  toLowerCase_def toLowerCase_char_def upperLetters_def lowerLetters_def
  truthy_def orElse_def SEVERITY_LIST_def FORMAT_LIST_def
  installGovulners_def govulnersVersion_def govulnersBinary_def
  execScan_def persistReport_def writeReport_def exitCodePolicy_def severityMessage_def
  showBool_def stdoutOf_def isWarning_def isSetFailed_def isWriteFile_def isScanExec_def

section \<open>Source resolution: the claims\<close>

text \<open>
  Claim C4. Whenever more than one of the inputs \<open>image\<close>, \<open>path\<close> and \<open>sbom\<close> is
  non-empty, source resolution throws the error that names the three as mutually exclusive
  and returns no source; \<open>run\<close> then does nothing but mark the run failed with that message.
\<close>

theorem sourceInput_mutually_exclusive:
  assumes "1 < length (filter truthy [getInput w ''image'', getInput w ''path'', getInput w ''sbom''])"
  shows "sourceInput w = Inl (Error ''The following options are mutually exclusive: image, path, sbom'')
         \<and> run w = [Debug (timeString w),
                    SetFailed ''The following options are mutually exclusive: image, path, sbom'']"
proof -
  have m: "multipleDefined [getInput w ''image'', getInput w ''path'', getInput w ''sbom'']"
    using assms by (simp add: multipleDefined_def split: if_splits)
  then have s: "sourceInput w = Inl (Error ''The following options are mutually exclusive: image, path, sbom'')"
    by (simp add: sourceInput_def)
  then show ?thesis by (simp add: run_def await_def)
qed

theorem sourceInput_mutually_exclusive_witness:
  "1 < length (filter truthy [''alpine:3.18'', ''/src'', ''''])
   \<and> sourceInput (cachedWorld 0 [(''image'', ''alpine:3.18''), (''path'', ''/src'')])
       = Inl (Error ''The following options are mutually exclusive: image, path, sbom'')"
  using sourceInput_mutually_exclusive
    [of "cachedWorld 0 [(''image'', ''alpine:3.18''), (''path'', ''/src'')]"]
  by (simp add: truthy_def cachedWorld_def)

text \<open>
  Claim C5. Whenever at most one of the three inputs is non-empty, source resolution returns
  the image unchanged if there is one, else the SBOM behind the prefix \<open>sbom:\<close> if there is
  one, else the path, or \<open>.\<close> for the empty path, behind the prefix \<open>dir:\<close>. With no
  input at all the source is \<open>dir:.\<close>.
\<close>

theorem sourceInput_single:
  assumes "length (filter truthy [getInput w ''image'', getInput w ''path'', getInput w ''sbom'']) \<le> 1"
  shows "sourceInput w =
           Inr (if getInput w ''image'' \<noteq> '''' then getInput w ''image''
                else if getInput w ''sbom'' \<noteq> '''' then ''sbom:'' @ getInput w ''sbom''
                else if getInput w ''path'' = '''' then ''dir:.''
                else ''dir:'' @ getInput w ''path'')"
  using assms by (simp add: sourceInput_def multipleDefined_def truthy_def split: if_splits)

theorem sourceInput_single_witness:
  "length (filter truthy ['''', '''', '''']) \<le> 1
   \<and> sourceInput (cachedWorld 0 []) = Inr ''dir:.''"
  using sourceInput_single [of "cachedWorld 0 []"]
  by (simp add: truthy_def cachedWorld_def)

section \<open>Reports\<close>

lemma runScan_returns:
  assumes "snd (runScan w p) = Inr out"
  shows "validateInputs p = ret ()
         \<and> (\<exists>path. snd (installGovulners w (govulnersVersion w)) = Inr path)
         \<and> (\<exists>r. exec w govulnersBinary (scanArgs (isDebug w) p) (Some (scanEnv w)) True = Inr r)"
proof -
  have v: "validateInputs p = ret ()"
    using validateInputs_cases [of p] runScan_invalid [of p _ w] assms by auto
  have i: "\<exists>path. snd (installGovulners w (govulnersVersion w)) = Inr path"
  proof (cases "snd (installGovulners w (govulnersVersion w))")
    case (Inl e)
    with runScan_install_fails [OF v Inl] assms show ?thesis by auto
  next
    case (Inr path)
    then show ?thesis by blast
  qed
  then obtain path where ip: "snd (installGovulners w (govulnersVersion w)) = Inr path" ..
  have "\<exists>r. exec w govulnersBinary (scanArgs (isDebug w) p) (Some (scanEnv w)) True = Inr r"
  proof (cases "exec w govulnersBinary (scanArgs (isDebug w) p) (Some (scanEnv w)) True")
    case (Inl e)
    with runScan_exec_fails [OF v ip Inl] assms show ?thesis by auto
  next
    case (Inr r)
    then show ?thesis by blast
  qed
  with v i show ?thesis by blast
qed

lemma registryWarning_filters:
  "filter isWarning (registryWarning w) = registryWarning w"
  "filter isSetFailed (registryWarning w) = []"
  "filter isWriteFile (registryWarning w) = []"
  "filter isScanExec (registryWarning w) = []"
  by (simp_all add: registryWarning_def Let_def isWarning_def isSetFailed_def isWriteFile_def
      isScanExec_def)

lemma persistReport_sarif:
  "persistReport w ''sarif'' out =
     (case writeFileSync w ''./results.sarif'' out of
        Some e \<Rightarrow> ([], Inl e)
      | None \<Rightarrow> ([WriteFile ''./results.sarif'' out], Inr [(''sarif'', ''./results.sarif'')]))"
  by (simp add: persistReport_def writeReport_def throw_def ret_def split: option.splits)

lemma persistReport_json:
  "persistReport w ''json'' out =
     (case writeFileSync w ''./results.json'' out of
        Some e \<Rightarrow> ([], Inl e)
      | None \<Rightarrow> ([WriteFile ''./results.json'' out], Inr [(''json'', ''./results.json'')]))"
  by (simp add: persistReport_def writeReport_def throw_def ret_def split: option.splits)

lemma persistReport_other:
  "format \<noteq> ''sarif'' \<Longrightarrow> format \<noteq> ''json'' \<Longrightarrow> persistReport w format out = ([Info out], Inr [])"
  by (simp add: persistReport_def ret_def)

lemma exitCodePolicy_no_write: "filter isWriteFile (exitCodePolicy code severity fb) = []"
  by (simp add: exitCodePolicy_def isWriteFile_def)

text \<open>
  Claim C8. In every scan that returns, with the child process having ended with result \<open>r\<close>:
  for the output format \<open>json\<close> the only file written is \<open>./results.json\<close>, holding exactly
  the captured standard output, and the outputs are the single key \<open>json\<close> with that path;
  likewise \<open>sarif\<close> with \<open>./results.sarif\<close>; for \<open>table\<close> no file is written, the outputs are
  empty and the captured output goes to \<open>core.info\<close>.
\<close>

theorem report_by_format:
  assumes "snd (runScan w p) = Inr out"
    and "exec w govulnersBinary (scanArgs (isDebug w) p) (Some (scanEnv w)) True = Inr r"
  shows "(outputFormat p = ''json'' \<longrightarrow>
            out = [(''json'', ''./results.json'')]
            \<and> filter isWriteFile (fst (runScan w p)) = [WriteFile ''./results.json'' (stdoutOf (chunks r))])
       \<and> (outputFormat p = ''sarif'' \<longrightarrow>
            out = [(''sarif'', ''./results.sarif'')]
            \<and> filter isWriteFile (fst (runScan w p)) = [WriteFile ''./results.sarif'' (stdoutOf (chunks r))])
       \<and> (outputFormat p = ''table'' \<longrightarrow>
            out = []
            \<and> filter isWriteFile (fst (runScan w p)) = []
            \<and> Info (stdoutOf (chunks r)) \<in> set (fst (runScan w p)))"
proof -
  from runScan_returns [OF assms(1)] obtain path where
    v: "validateInputs p = ret ()" and
    i: "snd (installGovulners w (govulnersVersion w)) = Inr path" by blast
  from runScan_reached [OF v i assms(2)] obtain pre post where
    q: "list_all quiet pre" "list_all quiet post" and
    run: "runScan w p =
          (registryWarning w @ pre
             @ Exec govulnersBinary (scanArgs (isDebug w) p) (Some (scanEnv w)) # post
             @ fst (persistReport w (outputFormat p) (stdoutOf (chunks r)))
             @ (case snd (persistReport w (outputFormat p) (stdoutOf (chunks r))) of
                  Inl _ \<Rightarrow> []
                | Inr _ \<Rightarrow> exitCodePolicy (exitCode r) (severityCutoff p)
                            (toLowerCase (failBuild p) = ''true'')),
           snd (persistReport w (outputFormat p) (stdoutOf (chunks r))))" by blast
  have out: "snd (persistReport w (outputFormat p) (stdoutOf (chunks r))) = Inr out"
    using assms(1) run by simp
  have writes: "filter isWriteFile (fst (runScan w p))
                = filter isWriteFile (fst (persistReport w (outputFormat p) (stdoutOf (chunks r))))"
    using run out q
    by (simp add: quiet_filters registryWarning_filters exitCodePolicy_no_write isWriteFile_def)
  have mem: "set (fst (persistReport w (outputFormat p) (stdoutOf (chunks r))))
             \<subseteq> set (fst (runScan w p))"
    using run by auto
  show ?thesis
  proof (intro conjI impI)
    assume f: "outputFormat p = ''json''"
    from out f show "out = [(''json'', ''./results.json'')]"
      by (auto simp: persistReport_json split: option.splits)
    from out f writes
    show "filter isWriteFile (fst (runScan w p)) = [WriteFile ''./results.json'' (stdoutOf (chunks r))]"
      by (auto simp: persistReport_json isWriteFile_def split: option.splits)
  next
    assume f: "outputFormat p = ''sarif''"
    from out f show "out = [(''sarif'', ''./results.sarif'')]"
      by (auto simp: persistReport_sarif split: option.splits)
    from out f writes
    show "filter isWriteFile (fst (runScan w p)) = [WriteFile ''./results.sarif'' (stdoutOf (chunks r))]"
      by (auto simp: persistReport_sarif isWriteFile_def split: option.splits)
  next
    assume f: "outputFormat p = ''table''"
    then have pr: "persistReport w (outputFormat p) (stdoutOf (chunks r)) = ([Info (stdoutOf (chunks r))], Inr [])"
      by (simp add: persistReport_other)
    from out pr show "out = []" by simp
    from writes pr show "filter isWriteFile (fst (runScan w p)) = []"
      by (simp add: isWriteFile_def)
    from mem pr show "Info (stdoutOf (chunks r)) \<in> set (fst (runScan w p))" by simp
  qed
qed


theorem report_by_format_witness:
  "snd (runScan (cachedWorld 0 []) (scanRequest ''true'' ''medium'' ''json''))
     = Inr [(''json'', ''./results.json'')]
   \<and> filter isWriteFile (fst (runScan (cachedWorld 0 []) (scanRequest ''true'' ''medium'' ''json'')))
     = [WriteFile ''./results.json'' ''{x:1}'']"
proof -
  let ?w = "cachedWorld 0 []" and ?p = "scanRequest ''true'' ''medium'' ''json''"
  have h1: "snd (runScan ?w ?p) = Inr [(''json'', ''./results.json'')]"
    by (simp add: model_defs)
  have h2: "exec ?w govulnersBinary (scanArgs (isDebug ?w) ?p) (Some (scanEnv ?w)) True
            = Inr \<lparr> exitCode = 0, chunks = [Stdout ''{x:'', Stderr ''1 match'', Stdout ''1}''] \<rparr>"
    by (simp add: cachedWorld_def)
  from report_by_format [OF h1 h2] h1 show ?thesis
    by (simp add: stdoutOf_def scanRequest_def)
qed

lemma validateInputs_ok:
  "validateInputs p = ret ()
   \<longleftrightarrow> toLowerCase (severityCutoff p) \<in> set SEVERITY_LIST
       \<and> toLowerCase (outputFormat p) \<in> set FORMAT_LIST"
  by (auto simp: validateInputs_def list_ex_iff ret_def throw_def)








text \<open>
  Claim C10. For a request that passes the validation and whose output format is neither
  exactly \<open>sarif\<close> nor exactly \<open>json\<close> (so \<open>SARIF\<close>, \<open>Json\<close>, \<open>table\<close>, \<open>TABLE\<close>, ...), a scan
  whose installation and child process succeed writes no file, returns no output and sends
  the captured output to \<open>core.info\<close>: the \<open>switch\<close> compares the format as it was given.
\<close>

theorem other_formats_not_persisted:
  assumes "toLowerCase (severityCutoff p) \<in> set SEVERITY_LIST"
    and "toLowerCase (outputFormat p) \<in> set FORMAT_LIST"
    and "outputFormat p \<noteq> ''sarif''" and "outputFormat p \<noteq> ''json''"
    and "snd (installGovulners w (govulnersVersion w)) = Inr path"
    and "exec w govulnersBinary (scanArgs (isDebug w) p) (Some (scanEnv w)) True = Inr r"
  shows "snd (runScan w p) = Inr []
         \<and> filter isWriteFile (fst (runScan w p)) = []
         \<and> Info (stdoutOf (chunks r)) \<in> set (fst (runScan w p))"
proof -
  have v: "validateInputs p = ret ()"
    using assms(1,2) by (simp add: validateInputs_ok)
  have pr: "persistReport w (outputFormat p) (stdoutOf (chunks r)) = ([Info (stdoutOf (chunks r))], Inr [])"
    using assms(3,4) by (simp add: persistReport_other)
  from runScan_reached [OF v assms(5,6)] obtain pre post where
    q: "list_all quiet pre" "list_all quiet post" and
    run: "runScan w p =
          (registryWarning w @ pre
             @ Exec govulnersBinary (scanArgs (isDebug w) p) (Some (scanEnv w)) # post
             @ [Info (stdoutOf (chunks r))]
             @ exitCodePolicy (exitCode r) (severityCutoff p) (toLowerCase (failBuild p) = ''true''),
           Inr [])"
    unfolding pr by auto
  show ?thesis
    unfolding run using q
    by (simp add: quiet_filters registryWarning_filters exitCodePolicy_no_write isWriteFile_def)
qed

theorem other_formats_not_persisted_witness:
  "toLowerCase ''SARIF'' \<in> set FORMAT_LIST \<and> ''SARIF'' \<noteq> ''sarif'' \<and> ''SARIF'' \<noteq> ''json''
   \<and> snd (runScan (cachedWorld 0 []) (scanRequest ''true'' ''medium'' ''SARIF'')) = Inr []
   \<and> filter isWriteFile (fst (runScan (cachedWorld 0 []) (scanRequest ''true'' ''medium'' ''SARIF''))) = []
   \<and> Info ''{x:1}'' \<in> set (fst (runScan (cachedWorld 0 []) (scanRequest ''true'' ''medium'' ''SARIF'')))"
proof -
  let ?w = "cachedWorld 0 []" and ?p = "scanRequest ''true'' ''medium'' ''SARIF''"
  have h1: "toLowerCase (severityCutoff ?p) \<in> set SEVERITY_LIST"
    by (simp add: scanRequest_def toLowerCase_def toLowerCase_char_def upperLetters_def
        lowerLetters_def SEVERITY_LIST_def)
  have h2: "toLowerCase (outputFormat ?p) \<in> set FORMAT_LIST"
    by (simp add: scanRequest_def toLowerCase_def toLowerCase_char_def upperLetters_def
        lowerLetters_def FORMAT_LIST_def)
  have h3: "outputFormat ?p \<noteq> ''sarif''" and h4: "outputFormat ?p \<noteq> ''json''"
    by (simp_all add: scanRequest_def)
  have h5: "snd (installGovulners ?w (govulnersVersion ?w))
            = Inr ''/opt/hostedtoolcache/govulners/0.1.0/x64/govulners''"
    by (simp add: model_defs)
  have h6: "exec ?w govulnersBinary (scanArgs (isDebug ?w) ?p) (Some (scanEnv ?w)) True
            = Inr \<lparr> exitCode = 0, chunks = [Stdout ''{x:'', Stderr ''1 match'', Stdout ''1}''] \<rparr>"
    by (simp add: cachedWorld_def)
  from other_formats_not_persisted [OF h1 h2 h3 h4 h5 h6] h2 show ?thesis
    by (simp add: stdoutOf_def scanRequest_def)
qed

section \<open>The exit status\<close>

lemma registryWarning_eq:
  "registryWarning w =
     (if (getInput w ''registry-username'' = '''') \<noteq> (getInput w ''registry-password'' = '''')
      then [Warning ''WARNING: registry-username and registry-password must be specified together'']
      else [])"
  by (auto simp: registryWarning_def Let_def truthy_def)

lemma persistReport_filters:
  "filter isWarning (fst (persistReport w format out)) = []"
  "filter isSetFailed (fst (persistReport w format out)) = []"
  "filter isScanExec (fst (persistReport w format out)) = []"
  by (simp_all add: persistReport_def writeReport_def throw_def ret_def isWarning_def
      isSetFailed_def isScanExec_def split: option.splits)

lemma exitCodePolicy_no_exec: "filter isScanExec (exitCodePolicy code severity fb) = []"
  by (simp add: exitCodePolicy_def isScanExec_def)

text \<open>
  Claim C1. In every scan that returns, with a non-empty severity cutoff and the child
  process having ended with result \<open>r\<close>: if the exit code is 0 the run is not marked failed
  and the exit status adds no warning; if it is positive and \<open>fail-build\<close> is true the run
  is marked failed, once, with the message that quotes the severity cutoff, and the exit
  status adds no warning; if it is positive and \<open>fail-build\<close> is not true the run is not
  marked failed and the same message is a warning. In all three cases the only other warning
  of the trace is the one about the registry credentials, which is there exactly when one
  of the two is set without the other.
\<close>

theorem exit_code_policy:
  assumes "snd (runScan w p) = Inr out"
    and "exec w govulnersBinary (scanArgs (isDebug w) p) (Some (scanEnv w)) True = Inr r"
    and "severityCutoff p \<noteq> ''''"
  shows "(exitCode r = 0 \<longrightarrow>
            filter isSetFailed (fst (runScan w p)) = []
            \<and> filter isWarning (fst (runScan w p)) = registryWarning w)
       \<and> (0 < exitCode r \<and> toLowerCase (failBuild p) = ''true'' \<longrightarrow>
            filter isSetFailed (fst (runScan w p)) =
              [SetFailed (''Failed minimum severity level. Found vulnerabilities with level ''
                          @ [CHR 0x27] @ severityCutoff p @ [CHR 0x27] @ '' or higher'')]
            \<and> filter isWarning (fst (runScan w p)) = registryWarning w)
       \<and> (0 < exitCode r \<and> toLowerCase (failBuild p) \<noteq> ''true'' \<longrightarrow>
            filter isSetFailed (fst (runScan w p)) = []
            \<and> filter isWarning (fst (runScan w p)) =
                registryWarning w
                @ [Warning (''Failed minimum severity level. Found vulnerabilities with level ''
                            @ [CHR 0x27] @ severityCutoff p @ [CHR 0x27] @ '' or higher'')])
       \<and> registryWarning w =
           (if (getInput w ''registry-username'' = '''') \<noteq> (getInput w ''registry-password'' = '''')
            then [Warning ''WARNING: registry-username and registry-password must be specified together'']
            else [])"
proof -
  from runScan_returns [OF assms(1)] obtain path where
    v: "validateInputs p = ret ()" and
    i: "snd (installGovulners w (govulnersVersion w)) = Inr path" by blast
  let ?out = "stdoutOf (chunks r)"
  from runScan_reached [OF v i assms(2)] obtain pre post where
    q: "list_all quiet pre" "list_all quiet post" and
    run: "runScan w p =
          (registryWarning w @ pre
             @ Exec govulnersBinary (scanArgs (isDebug w) p) (Some (scanEnv w)) # post
             @ fst (persistReport w (outputFormat p) ?out)
             @ (case snd (persistReport w (outputFormat p) ?out) of
                  Inl _ \<Rightarrow> []
                | Inr _ \<Rightarrow> exitCodePolicy (exitCode r) (severityCutoff p)
                            (toLowerCase (failBuild p) = ''true'')),
           snd (persistReport w (outputFormat p) ?out))" by blast
  have po: "snd (persistReport w (outputFormat p) ?out) = Inr out"
    using assms(1) run by simp
  have fl: "filter isSetFailed (fst (runScan w p)) =
              filter isSetFailed (exitCodePolicy (exitCode r) (severityCutoff p)
                                    (toLowerCase (failBuild p) = ''true''))"
    using run po q
    by (simp add: quiet_filters registryWarning_filters persistReport_filters isSetFailed_def)
  have wn: "filter isWarning (fst (runScan w p)) =
              registryWarning w
              @ filter isWarning (exitCodePolicy (exitCode r) (severityCutoff p)
                                    (toLowerCase (failBuild p) = ''true''))"
    using run po q
    by (simp add: quiet_filters registryWarning_filters persistReport_filters isWarning_def)
  show ?thesis
    unfolding fl wn using assms(3)
    by (simp add: exitCodePolicy_def severityMessage_def truthy_def isSetFailed_def isWarning_def
        registryWarning_eq)
qed

theorem exit_code_policy_witness:
  "filter isSetFailed (fst (runScan (cachedWorld 2 []) (scanRequest ''false'' ''high'' ''json''))) = []
   \<and> filter isWarning (fst (runScan (cachedWorld 2 []) (scanRequest ''false'' ''high'' ''json'')))
       = [Warning (''Failed minimum severity level. Found vulnerabilities with level ''
                   @ [CHR 0x27] @ ''high'' @ [CHR 0x27] @ '' or higher'')]"
proof -
  let ?w = "cachedWorld 2 []" and ?p = "scanRequest ''false'' ''high'' ''json''"
  have h1: "snd (runScan ?w ?p) = Inr [(''json'', ''./results.json'')]"
    by (simp add: model_defs)
  have h2: "exec ?w govulnersBinary (scanArgs (isDebug ?w) ?p) (Some (scanEnv ?w)) True
            = Inr \<lparr> exitCode = 2, chunks = [Stdout ''{x:'', Stderr ''1 match'', Stdout ''1}''] \<rparr>"
    by (simp add: cachedWorld_def)
  have h3: "severityCutoff ?p \<noteq> ''''"
    by (simp add: scanRequest_def)
  have h4: "toLowerCase (failBuild ?p) \<noteq> ''true''"
    by (simp add: scanRequest_def toLowerCase_def toLowerCase_char_def upperLetters_def
        lowerLetters_def)
  have h5: "registryWarning ?w = []"
    by (simp add: registryWarning_def cachedWorld_def truthy_def)
  from exit_code_policy [OF h1 h2 h3] h4 h5 show ?thesis
    by (simp add: scanRequest_def)
qed

text \<open>
  A scan with exit code 0 that does carry a warning: the registry user name is set, the
  password is not.
\<close>

theorem exit_code_policy_counterexample:
  "snd (runScan (cachedWorld 0 [(''registry-username'', ''ci-bot'')])
          (scanRequest ''true'' ''medium'' ''sarif'')) = Inr [(''sarif'', ''./results.sarif'')]
   \<and> exec (cachedWorld 0 [(''registry-username'', ''ci-bot'')]) ''govulners''
        [''-o'', ''sarif'', ''--fail-on'', ''medium'', ''dir:.'']
        (Some (scanEnv (cachedWorld 0 [(''registry-username'', ''ci-bot'')]))) True
       = Inr \<lparr> exitCode = 0, chunks = [Stdout ''{x:'', Stderr ''1 match'', Stdout ''1}''] \<rparr>
   \<and> Warning ''WARNING: registry-username and registry-password must be specified together''
       \<in> set (fst (runScan (cachedWorld 0 [(''registry-username'', ''ci-bot'')])
                      (scanRequest ''true'' ''medium'' ''sarif'')))"
  by (simp add: model_defs)

section \<open>The child process\<close>

lemma scan_execs:
  "filter isScanExec (fst (runScan w p)) =
     (if validateInputs p = ret () \<and> (\<exists>path. snd (installGovulners w (govulnersVersion w)) = Inr path)
      then [Exec govulnersBinary (scanArgs (isDebug w) p) (Some (scanEnv w))]
      else [])"
proof (cases "validateInputs p = ret ()")
  case False
  then obtain e where "validateInputs p = throw e"
    using validateInputs_cases [of p] by blast
  from runScan_invalid [OF this, of w] False show ?thesis
    by (simp add: registryWarning_filters)
next
  case v: True
  show ?thesis
  proof (cases "snd (installGovulners w (govulnersVersion w))")
    case (Inl e)
    from runScan_install_fails [OF v Inl] obtain pre where
      "list_all quiet pre" "runScan w p = (registryWarning w @ pre, Inl e)" by blast
    with Inl show ?thesis
      by (simp add: registryWarning_filters quiet_filters)
  next
    case i: (Inr path)
    show ?thesis
    proof (cases "exec w govulnersBinary (scanArgs (isDebug w) p) (Some (scanEnv w)) True")
      case (Inl e)
      from runScan_exec_fails [OF v i Inl] obtain pre post where
        "list_all quiet pre" "list_all quiet post"
        "runScan w p = (registryWarning w @ pre
                          @ Exec govulnersBinary (scanArgs (isDebug w) p) (Some (scanEnv w)) # post,
                        Inl e)" by blast
      with v i show ?thesis
        by (simp add: registryWarning_filters quiet_filters isScanExec_def)
    next
      case (Inr r)
      from runScan_reached [OF v i Inr] obtain pre post where
        "list_all quiet pre" "list_all quiet post"
        "runScan w p =
          (registryWarning w @ pre
             @ Exec govulnersBinary (scanArgs (isDebug w) p) (Some (scanEnv w)) # post
             @ fst (persistReport w (outputFormat p) (stdoutOf (chunks r)))
             @ (case snd (persistReport w (outputFormat p) (stdoutOf (chunks r))) of
                  Inl _ \<Rightarrow> []
                | Inr _ \<Rightarrow> exitCodePolicy (exitCode r) (severityCutoff p)
                            (toLowerCase (failBuild p) = ''true'')),
           snd (persistReport w (outputFormat p) (stdoutOf (chunks r))))" by blast
      with v i show ?thesis
        by (simp add: registryWarning_filters quiet_filters persistReport_filters
            exitCodePolicy_no_exec isScanExec_def split: sum.splits)
    qed
  qed
qed

lemma registryWarning_first: "set (registryWarning w) \<subseteq> set (fst (runScan w p))"
  by (simp add: runScan_def Let_def)

lemma scanEnv_credentials:
  assumes "getInput w ''registry-username'' \<noteq> '''' \<or> getInput w ''registry-password'' \<noteq> ''''"
  shows "map_of (scanEnv w) ''GOVULNERS_REGISTRY_AUTH_USERNAME'' = Some (getInput w ''registry-username'')"
    and "map_of (scanEnv w) ''GOVULNERS_REGISTRY_AUTH_PASSWORD'' = Some (getInput w ''registry-password'')"
  using assms by (auto simp: scanEnv_def Let_def truthy_def update_conv')

text \<open>
  Claim C2. When exactly one of the registry user name and password is set, the warning is
  emitted, whatever becomes of the scan. As soon as one of the two is set, and so also when
  both are, the environment of the child process carries both variables
  \<open>GOVULNERS_REGISTRY_AUTH_USERNAME\<close> and \<open>GOVULNERS_REGISTRY_AUTH_PASSWORD\<close> with the two
  inputs as they are, the empty one included. A scan that passes the validation and the
  installation starts exactly one child process with that environment, and its argument
  list is the same whatever the inputs of the workflow are.
\<close>

theorem registry_credentials:
  "((getInput w ''registry-username'' = '''') \<noteq> (getInput w ''registry-password'' = '''') \<longrightarrow>
      Warning ''WARNING: registry-username and registry-password must be specified together''
        \<in> set (fst (runScan w p)))
   \<and> (getInput w ''registry-username'' \<noteq> '''' \<or> getInput w ''registry-password'' \<noteq> '''' \<longrightarrow>
        map_of (scanEnv w) ''GOVULNERS_REGISTRY_AUTH_USERNAME'' = Some (getInput w ''registry-username'')
        \<and> map_of (scanEnv w) ''GOVULNERS_REGISTRY_AUTH_PASSWORD'' = Some (getInput w ''registry-password''))
   \<and> (toLowerCase (severityCutoff p) \<in> set SEVERITY_LIST
        \<and> toLowerCase (outputFormat p) \<in> set FORMAT_LIST
        \<and> snd (installGovulners w (govulnersVersion w)) = Inr path \<longrightarrow>
        filter isScanExec (fst (runScan w p)) =
          [Exec ''govulners'' (scanArgs (isDebug w) p) (Some (scanEnv w))])
   \<and> scanArgs (isDebug (w\<lparr>getInput := inputs\<rparr>)) p = scanArgs (isDebug w) p"
proof -
  have a: "(getInput w ''registry-username'' = '''') \<noteq> (getInput w ''registry-password'' = '''') \<longrightarrow>
      Warning ''WARNING: registry-username and registry-password must be specified together''
        \<in> set (fst (runScan w p))"
    using registryWarning_first [of w p] by (auto simp: registryWarning_eq)
  have b: "toLowerCase (severityCutoff p) \<in> set SEVERITY_LIST
        \<and> toLowerCase (outputFormat p) \<in> set FORMAT_LIST
        \<and> snd (installGovulners w (govulnersVersion w)) = Inr path \<longrightarrow>
        filter isScanExec (fst (runScan w p)) =
          [Exec ''govulners'' (scanArgs (isDebug w) p) (Some (scanEnv w))]"
    by (auto simp: scan_execs validateInputs_ok govulnersBinary_def)
  from a b scanEnv_credentials [of w] show ?thesis by simp
qed

theorem registry_credentials_witness:
  "Warning ''WARNING: registry-username and registry-password must be specified together''
     \<in> set (fst (runScan (cachedWorld 0 [(''registry-username'', ''ci-bot'')])
                    (scanRequest ''true'' ''medium'' ''sarif'')))
   \<and> map_of (scanEnv (cachedWorld 0 [(''registry-username'', ''ci-bot'')]))
        ''GOVULNERS_REGISTRY_AUTH_USERNAME'' = Some ''ci-bot''
   \<and> map_of (scanEnv (cachedWorld 0 [(''registry-username'', ''ci-bot'')]))
        ''GOVULNERS_REGISTRY_AUTH_PASSWORD'' = Some ''''
   \<and> filter isScanExec (fst (runScan (cachedWorld 0 [(''registry-username'', ''ci-bot'')])
                                (scanRequest ''true'' ''medium'' ''sarif'')))
       = [Exec ''govulners'' [''-o'', ''sarif'', ''--fail-on'', ''medium'', ''dir:.'']
            (Some (scanEnv (cachedWorld 0 [(''registry-username'', ''ci-bot'')])))]"
proof -
  let ?w = "cachedWorld 0 [(''registry-username'', ''ci-bot'')]"
  let ?p = "scanRequest ''true'' ''medium'' ''sarif''"
  have h1: "getInput ?w ''registry-username'' = ''ci-bot''"
    and h2: "getInput ?w ''registry-password'' = ''''"
    by (simp_all add: cachedWorld_def)
  have h3: "toLowerCase (severityCutoff ?p) \<in> set SEVERITY_LIST"
    and h4: "toLowerCase (outputFormat ?p) \<in> set FORMAT_LIST"
    by (simp_all add: scanRequest_def toLowerCase_def toLowerCase_char_def upperLetters_def
        lowerLetters_def SEVERITY_LIST_def FORMAT_LIST_def)
  have h5: "snd (installGovulners ?w (govulnersVersion ?w))
            = Inr ''/opt/hostedtoolcache/govulners/0.1.0/x64/govulners''"
    by (simp add: model_defs)
  have h6: "scanArgs (isDebug ?w) ?p = [''-o'', ''sarif'', ''--fail-on'', ''medium'', ''dir:.'']"
    by (simp add: model_defs)
  from registry_credentials [of ?w ?p "''/opt/hostedtoolcache/govulners/0.1.0/x64/govulners''"]
    h1 h2 h3 h4 h5 h6
  show ?thesis by simp
qed

text \<open>
  With only the user name set, the child process is started with both variables in its
  environment.
\<close>

theorem registry_credentials_counterexample:
  "Exec ''govulners'' [''-o'', ''sarif'', ''--fail-on'', ''medium'', ''dir:.'']
     (Some [(''HOME'', ''/home/runner''),
            (''GOVULNERS_CHECK_FOR_APP_UPDATE'', ''false''),
            (''GOVULNERS_REGISTRY_AUTH_USERNAME'', ''ci-bot''),
            (''GOVULNERS_REGISTRY_AUTH_PASSWORD'', '''')])
     \<in> set (fst (runScan (cachedWorld 0 [(''registry-username'', ''ci-bot'')])
                    (scanRequest ''true'' ''medium'' ''sarif'')))"
  by (simp add: model_defs)

text \<open>
  Claim C7. A scan that passes the validation and the installation starts exactly one child
  process with an environment of its own, the tool, and its arguments are, in this order:
  \<open>-vv\<close> in debug mode, \<open>-o\<close> and the output format as given, \<open>--fail-on\<close> and the
  severity cutoff in lower case when the cutoff is not empty, \<open>--only-fixed\<close> when
  \<open>only-fixed\<close> is true, \<open>--add-cpes-if-none\<close> when \<open>add-cpes-if-none\<close> is true, and the
  source last.
\<close>

theorem scan_arguments:
  assumes "toLowerCase (severityCutoff p) \<in> set SEVERITY_LIST"
    and "toLowerCase (outputFormat p) \<in> set FORMAT_LIST"
    and "snd (installGovulners w (govulnersVersion w)) = Inr path"
  shows "filter isScanExec (fst (runScan w p)) =
           [Exec ''govulners''
              ((if isDebug w then [''-vv''] else [])
               @ [''-o'', outputFormat p]
               @ (if severityCutoff p \<noteq> '''' then [''--fail-on'', toLowerCase (severityCutoff p)] else [])
               @ (if toLowerCase (onlyFixed p) = ''true'' then [''--only-fixed''] else [])
               @ (if toLowerCase (addCpesIfNone p) = ''true'' then [''--add-cpes-if-none''] else [])
               @ [source p])
              (Some (scanEnv w))]"
  using assms by (auto simp: scan_execs validateInputs_ok govulnersBinary_def scanArgs_def)

theorem scan_arguments_witness:
  "filter isScanExec (fst (runScan (cachedWorld 0 []) (scanRequest ''true'' ''HIGH'' ''sarif''))) =
     [Exec ''govulners'' [''-o'', ''sarif'', ''--fail-on'', ''high'', ''dir:.'']
        (Some (scanEnv (cachedWorld 0 [])))]"
proof -
  let ?w = "cachedWorld 0 []" and ?p = "scanRequest ''true'' ''HIGH'' ''sarif''"
  have l: "toLowerCase ''HIGH'' = ''high''" "toLowerCase ''sarif'' = ''sarif''"
    "toLowerCase ''false'' = ''false''"
    by (simp_all add: toLowerCase_def toLowerCase_char_def upperLetters_def lowerLetters_def)
  have h1: "toLowerCase (severityCutoff ?p) \<in> set SEVERITY_LIST"
    and h2: "toLowerCase (outputFormat ?p) \<in> set FORMAT_LIST"
    by (simp_all add: scanRequest_def l SEVERITY_LIST_def FORMAT_LIST_def)
  have h3: "snd (installGovulners ?w (govulnersVersion ?w))
            = Inr ''/opt/hostedtoolcache/govulners/0.1.0/x64/govulners''"
    by (simp add: model_defs)
  have d: "\<not> isDebug ?w"
    by (simp add: cachedWorld_def)
  from scan_arguments [OF h1 h2 h3] d show ?thesis
    by (simp add: scanRequest_def l)
qed

text \<open>
  For the severity cutoff \<open>HIGH\<close> the child process is given \<open>high\<close>, and no child process
  is given \<open>HIGH\<close>.
\<close>

theorem scan_arguments_counterexample:
  "Exec ''govulners'' [''-o'', ''sarif'', ''--fail-on'', ''high'', ''dir:.'']
     (Some [(''HOME'', ''/home/runner''), (''GOVULNERS_CHECK_FOR_APP_UPDATE'', ''false'')])
     \<in> set (fst (runScan (cachedWorld 0 []) (scanRequest ''true'' ''HIGH'' ''sarif'')))
   \<and> Exec ''govulners'' [''-o'', ''sarif'', ''--fail-on'', ''HIGH'', ''dir:.'']
     (Some [(''HOME'', ''/home/runner''), (''GOVULNERS_CHECK_FOR_APP_UPDATE'', ''false'')])
     \<notin> set (fst (runScan (cachedWorld 0 []) (scanRequest ''true'' ''HIGH'' ''sarif'')))"
  by (simp add: model_defs)

section \<open>Validation\<close>

text \<open>
  A value that is not one of the words once in lower case stops the scan right after the
  registry warning, the severity cutoff first; the words themselves pass in any letter case.
\<close>

lemma lowerLetters_table:
  "list_all (\<lambda>l. toLowerCase_char l = l
                \<and> toLowerCase_char (the (map_of (zip lowerLetters upperLetters) l)) = l)
     lowerLetters"
  by (simp add: toLowerCase_char_def lowerLetters_def upperLetters_def)

lemma toLowerCase_char_variant:
  assumes "l \<in> set lowerLetters"
    and "c = l \<or> map_of (zip lowerLetters upperLetters) l = Some c"
  shows "toLowerCase_char c = l"
proof -
  from lowerLetters_table assms(1)
  have "toLowerCase_char l = l"
    and "toLowerCase_char (the (map_of (zip lowerLetters upperLetters) l)) = l"
    by (simp_all add: list_all_iff)
  with assms(2) show ?thesis by auto
qed

lemma toLowerCase_variant:
  assumes "caseVariant s word" and "set word \<subseteq> set lowerLetters"
  shows "toLowerCase s = word"
  using assms unfolding caseVariant_def toLowerCase_def
  by (induction s word rule: list_all2_induct) (simp_all add: toLowerCase_char_variant)

lemma words_lower_case:
  "list_all (\<lambda>word. list_all (\<lambda>l. l \<in> set lowerLetters) word) (SEVERITY_LIST @ FORMAT_LIST)"
  by (simp add: SEVERITY_LIST_def FORMAT_LIST_def lowerLetters_def)

lemma validateInputs_any_case:
  assumes "caseVariant (severityCutoff p) severity" and "severity \<in> set SEVERITY_LIST"
    and "caseVariant (outputFormat p) format" and "format \<in> set FORMAT_LIST"
  shows "validateInputs p = ret ()"
proof -
  from words_lower_case assms(2,4)
  have "set severity \<subseteq> set lowerLetters" and "set format \<subseteq> set lowerLetters"
    by (auto simp: list_all_iff)
  with assms show ?thesis
    by (simp add: validateInputs_ok toLowerCase_variant)
qed

lemma invalid_severity_stops:
  assumes "toLowerCase (severityCutoff p) \<notin> set SEVERITY_LIST"
  shows "runScan w p = (registryWarning w, Inl (severityError (severityCutoff p)))"
proof -
  have "validateInputs p = throw (severityError (severityCutoff p))"
    using assms by (simp add: validateInputs_def list_ex_iff)
  then show ?thesis by (rule runScan_invalid)
qed

lemma invalid_format_stops:
  assumes "toLowerCase (severityCutoff p) \<in> set SEVERITY_LIST"
    and "toLowerCase (outputFormat p) \<notin> set FORMAT_LIST"
  shows "runScan w p = (registryWarning w, Inl (formatError (outputFormat p)))"
proof -
  have "validateInputs p = throw (formatError (outputFormat p))"
    using assms by (simp add: validateInputs_def list_ex_iff)
  then show ?thesis by (rule runScan_invalid)
qed

text \<open>
  The exit status with an empty severity cutoff, taken alone: a positive exit code is
  reported as the warning about the tool, whatever \<open>fail-build\<close> says.
\<close>

lemma exitCodePolicy_empty_severity:
  "0 < code \<Longrightarrow>
     exitCodePolicy code '''' fb = [Warning ''govulners had a non-zero exit status when running'']"
  by (simp add: exitCodePolicy_def truthy_def)



text \<open>
  On a runner whose child process would exit with code 3, the scan with the empty severity
  cutoff emits nothing and throws.
\<close>

theorem empty_severity_exit_three:
  "exec (cachedWorld 3 []) ''govulners'' [''-o'', ''sarif'', ''dir:.'']
     (Some (scanEnv (cachedWorld 3 []))) True
     = Inr \<lparr> exitCode = 3, chunks = [Stdout ''{x:'', Stderr ''1 match'', Stdout ''1}''] \<rparr>
   \<and> fst (runScan (cachedWorld 3 []) (scanRequest ''true'' '''' ''sarif'')) = []
   \<and> snd (runScan (cachedWorld 3 []) (scanRequest ''true'' '''' ''sarif''))
       = Inl (Error ''Invalid severity-cutoff value is set to  - please ensure you are choosing either negligible, low, medium, high, or critical'')"
  by (simp add: model_defs)

text \<open>
  Claim C6. The error for the output format \<open>xml\<close>, thrown before anything is installed or
  started: its message names the field and the value, and of the three formats of
  \<open>FORMAT_LIST\<close> it lists \<open>json\<close> and \<open>sarif\<close>.
\<close>

theorem invalid_format_message:
  "runScan (cachedWorld 0 []) (scanRequest ''true'' ''medium'' ''xml'') =
     ([], Inl (Error ''Invalid output-format value is set to xml - please ensure you are choosing either json or sarif''))
   \<and> ''table'' \<in> set FORMAT_LIST"
  by (simp add: model_defs)

theorem invalid_format_message_witness:
  "snd (runScan (cachedWorld 0 []) (scanRequest ''true'' ''medium'' ''xml'')) =
     Inl (Error ''Invalid output-format value is set to xml - please ensure you are choosing either json or sarif'')"
  using invalid_format_message by simp

end
